theory Spec2Isabelle
  imports Complex_Main "HOL-Library.Char_ord" "HOL-Library.List_Lexorder"
begin

section \<open>Numbers\<close>

text \<open>
  The TypeScript code computes with JavaScript numbers and reads decimal columns with
  \<^verbatim>\<open>parseFloat\<close>. A number is modelled by the value it stands for: not-a-number, an
  infinity, or a finite value, which is an exact rational here. The rounding error of
  double-precision arithmetic is not represented. A string-typed decimal field
  (\<^verbatim>\<open>price\<close>, \<^verbatim>\<open>amount\<close>, \<^verbatim>\<open>subtotal\<close>) is represented by the number that
  \<^verbatim>\<open>parseFloat\<close> reads from it.
\<close>

datatype jsnum = NaN | NegInf | Fin rat | PosInf

text \<open>The comparison \<^verbatim>\<open>a < b\<close>; every comparison with not-a-number is false.\<close>

fun jlt :: "jsnum \<Rightarrow> jsnum \<Rightarrow> bool" where
  "jlt NaN b = False"
| "jlt a NaN = False"
| "jlt (Fin a) (Fin b) = (a < b)"
| "jlt a NegInf = False"
| "jlt NegInf b = True"
| "jlt PosInf b = False"
| "jlt a PosInf = True"

definition jgt :: "jsnum \<Rightarrow> jsnum \<Rightarrow> bool" where
  "jgt a b = jlt b a"

fun isNaN :: "jsnum \<Rightarrow> bool" where
  "isNaN NaN = True"
| "isNaN a = False"

text \<open>The comparison \<^verbatim>\<open>a <= b\<close>.\<close>

definition jle :: "jsnum \<Rightarrow> jsnum \<Rightarrow> bool" where
  "jle a b = (\<not> isNaN a \<and> \<not> isNaN b \<and> \<not> jlt b a)"

fun jneg :: "jsnum \<Rightarrow> jsnum" where
  "jneg NaN = NaN"
| "jneg NegInf = PosInf"
| "jneg (Fin a) = Fin (- a)"
| "jneg PosInf = NegInf"

fun jadd :: "jsnum \<Rightarrow> jsnum \<Rightarrow> jsnum" where
  "jadd NaN b = NaN"
| "jadd a NaN = NaN"
| "jadd (Fin a) (Fin b) = Fin (a + b)"
| "jadd (Fin a) b = b"
| "jadd a (Fin b) = a"
| "jadd NegInf NegInf = NegInf"
| "jadd PosInf PosInf = PosInf"
| "jadd a b = NaN"

definition jsub :: "jsnum \<Rightarrow> jsnum \<Rightarrow> jsnum" where
  "jsub a b = jadd a (jneg b)"

text \<open>The sign of a number that is not not-a-number: -1, 0 or 1.\<close>

fun jsign :: "jsnum \<Rightarrow> int" where
  "jsign NaN = 0"
| "jsign NegInf = - 1"
| "jsign (Fin a) = (if a < 0 then - 1 else if a = 0 then 0 else 1)"
| "jsign PosInf = 1"

fun jmul :: "jsnum \<Rightarrow> jsnum \<Rightarrow> jsnum" where
  "jmul NaN b = NaN"
| "jmul a NaN = NaN"
| "jmul (Fin a) (Fin b) = Fin (a * b)"
| "jmul a b =
     (if jsign a * jsign b = 0 then NaN
      else if jsign a * jsign b < 0 then NegInf else PosInf)"


text \<open>
  \<^verbatim>\<open>x.toFixed(2)\<close>, as the number its result denotes: the nearest multiple of 0.01,
  a tie going away from zero.
\<close>

definition round2 :: "rat \<Rightarrow> rat" where
  "round2 r = (if r < 0 then - 1 else 1) * of_int \<lfloor>\<bar>r\<bar> * 100 + 1 / 2\<rfloor> / 100"

fun toFixed2 :: "jsnum \<Rightarrow> jsnum" where
  "toFixed2 (Fin a) = Fin (round2 a)"
| "toFixed2 a = a"

section \<open>Tables\<close>

text \<open>
  One record per table of \<^verbatim>\<open>shared/schema.ts\<close>, with the columns the storage layer
  computes with. A table is the list of its rows, a new row going to the end. The
  surrogate keys that \<^verbatim>\<open>randomUUID\<close> gives to ledger rows (movements, items, statistics,
  account entries) and the timestamps are left out: nothing below reads them except to
  select again the row just inserted. Keys that are read (product, order, return and
  discount-code ids) are kept; fresh ones are arguments of the operation that needs them.
\<close>

record insertProduct =
  p_productName :: string
  p_sku :: string
  p_category :: string
  p_price :: jsnum
  p_costPrice :: "jsnum option"
  p_stockQuantity :: int

record product = insertProduct +
  p_id :: string

record insertOrder =
  o_customerName :: string
  o_customerEmail :: "string option"
  o_status :: string
  o_totalAmount :: jsnum

record orderRow = insertOrder +
  o_id :: string
  o_orderNumber :: string

record insertOrderItem =
  oi_productId :: string
  oi_productName :: string
  oi_sku :: string
  oi_quantity :: int
  oi_unitPrice :: jsnum
  oi_subtotal :: jsnum

record orderItem = insertOrderItem +
  oi_orderId :: string

record stockMovement =
  sm_productId :: string
  sm_productName :: string
  sm_sku :: string
  sm_type :: string
  sm_quantity :: int
  sm_reason :: string
  sm_notes :: "string option"

record stockStat =
  ss_productId :: string
  ss_productName :: string
  ss_sku :: string
  ss_category :: string
  ss_available :: int
  ss_sold :: int
  ss_returned :: int
  ss_purchased :: int

record insertReturn =
  r_orderId :: string
  r_customerName :: string
  r_customerEmail :: "string option"
  r_refundAmount :: "jsnum option"
  r_creditAmount :: "jsnum option"
  r_exchangeValue :: "jsnum option"
  r_additionalPayment :: "jsnum option"

record returnRow = insertReturn +
  r_id :: string
  r_returnNumber :: string

record insertReturnItem =
  ri_productId :: string
  ri_productName :: string
  ri_sku :: string
  ri_quantity :: int
  ri_unitPrice :: jsnum
  ri_subtotal :: jsnum
  ri_exchangeProductId :: "string option"

record returnItem = insertReturnItem +
  ri_returnId :: string

record discountCode =
  dc_id :: string
  dc_code :: string
  dc_customerEmail :: string
  dc_amount :: jsnum

record account =
  acc_transactionType :: string
  acc_referenceId :: string
  acc_referenceNumber :: string
  acc_revenue :: jsnum
  acc_cost :: jsnum
  acc_profit :: jsnum
  acc_productId :: string
  acc_productName :: string
  acc_category :: string
  acc_quantity :: int
  acc_fiscalYear :: nat
  acc_fiscalMonth :: nat
  acc_fiscalQuarter :: nat

record db =
  products :: "product list"
  orders :: "orderRow list"
  orderItems :: "orderItem list"
  stockMovements :: "stockMovement list"
  stockStats :: "stockStat list"
  returns :: "returnRow list"
  returnItems :: "returnItem list"
  discountCodes :: "discountCode list"
  accounts :: "account list"

section \<open>The storage layer: products, statistics, movements\<close>

definition getProduct :: "string \<Rightarrow> db \<Rightarrow> product option" where
  "getProduct pid st = find (\<lambda>p. p_id p = pid) (products st)"

definition getProductBySKU :: "string \<Rightarrow> db \<Rightarrow> product option" where
  "getProductBySKU s st = find (\<lambda>p. p_sku p = s) (products st)"

text \<open>
  \<^verbatim>\<open>updateProduct(id, product)\<close> sets every column of the rows with that id from
  \<^verbatim>\<open>product\<close>. Its callers below ignore the row it returns.
\<close>

definition updateProduct :: "string \<Rightarrow> product \<Rightarrow> db \<Rightarrow> db" where
  "updateProduct pid productData st =
     st\<lparr>products := map (\<lambda>r. if p_id r = pid then productData else r) (products st)\<rparr>"

definition getStockStatsByProduct :: "string \<Rightarrow> db \<Rightarrow> stockStat option" where
  "getStockStatsByProduct pid st = find (\<lambda>r. ss_productId r = pid) (stockStats st)"

text \<open>The \<^verbatim>\<open>Partial<StockStats>\<close> argument of \<^verbatim>\<open>updateStockStats\<close>: the counters to set.\<close>

record statsUpdates =
  u_available :: "int option"
  u_sold :: "int option"
  u_returned :: "int option"
  u_purchased :: "int option"

definition noUpdates :: statsUpdates where
  "noUpdates = \<lparr>u_available = None, u_sold = None, u_returned = None, u_purchased = None\<rparr>"

definition setStats :: "statsUpdates \<Rightarrow> stockStat \<Rightarrow> stockStat" where
  "setStats u r =
     r\<lparr>ss_available := (case u_available u of None \<Rightarrow> ss_available r | Some v \<Rightarrow> v),
       ss_sold := (case u_sold u of None \<Rightarrow> ss_sold r | Some v \<Rightarrow> v),
       ss_returned := (case u_returned u of None \<Rightarrow> ss_returned r | Some v \<Rightarrow> v),
       ss_purchased := (case u_purchased u of None \<Rightarrow> ss_purchased r | Some v \<Rightarrow> v)\<rparr>"

definition updateStockStats :: "string \<Rightarrow> statsUpdates \<Rightarrow> db \<Rightarrow> db" where
  "updateStockStats pid updates st =
     st\<lparr>stockStats :=
          map (\<lambda>r. if ss_productId r = pid then setStats updates r else r) (stockStats st)\<rparr>"

text \<open>
  \<^verbatim>\<open>createStockMovement\<close>: the movement row is inserted as supplied; then, when the
  product exists, its quantity is recomputed from the movement type, clamped at zero and
  written back, and the statistics row (when there is one) follows.
\<close>

definition createStockMovement :: "stockMovement \<Rightarrow> db \<Rightarrow> stockMovement \<times> db" where
  "createStockMovement insertMovement st =
     (let st1 = st\<lparr>stockMovements := stockMovements st @ [insertMovement]\<rparr>;
          movement = insertMovement
      in case getProduct (sm_productId insertMovement) st1 of
           None \<Rightarrow> (movement, st1)
         | Some product \<Rightarrow>
             let newQuantity =
                   (if sm_type insertMovement = ''in''
                      then p_stockQuantity product + sm_quantity insertMovement
                    else if sm_type insertMovement = ''out''
                      then p_stockQuantity product - sm_quantity insertMovement
                    else if sm_type insertMovement = ''adjustment''
                      then sm_quantity insertMovement
                    else p_stockQuantity product);
                 finalQuantity = max 0 newQuantity;
                 st2 = updateProduct (sm_productId insertMovement)
                         (product\<lparr>p_stockQuantity := finalQuantity\<rparr>) st1
             in case getStockStatsByProduct (sm_productId insertMovement) st2 of
                  None \<Rightarrow> (movement, st2)
                | Some stats \<Rightarrow>
                    if sm_reason insertMovement = ''purchase''
                    then (movement,
                          updateStockStats (sm_productId insertMovement)
                            (noUpdates\<lparr>u_available := Some finalQuantity,
                               u_purchased := Some (ss_purchased stats + sm_quantity insertMovement)\<rparr>)
                            st2)
                    else (movement,
                          updateStockStats (sm_productId insertMovement)
                            (noUpdates\<lparr>u_available := Some finalQuantity\<rparr>) st2))"

section \<open>Orders\<close>

text \<open>
  The body of the loop of \<^verbatim>\<open>createOrder\<close> for one item: the item row is inserted; when
  the product exists its quantity is lowered by the item's quantity and written, a
  movement of type \<^verbatim>\<open>out\<close> is created through \<^verbatim>\<open>createStockMovement\<close>, and the
  statistics row gets the new \<^verbatim>\<open>available\<close> and \<^verbatim>\<open>sold\<close>.
\<close>

definition orderNotes :: "string \<Rightarrow> string" where
  "orderNotes orderNumber = ''Order '' @ orderNumber"

definition createOrderItem :: "string \<Rightarrow> string \<Rightarrow> insertOrderItem \<Rightarrow> db \<Rightarrow> orderItem \<times> db" where
  "createOrderItem orderId orderNumber item st =
     (let row = insertOrderItem.extend item (orderItem.fields orderId);
          st1 = st\<lparr>orderItems := orderItems st @ [row]\<rparr>
      in case getProduct (oi_productId item) st1 of
           None \<Rightarrow> (row, st1)
         | Some product \<Rightarrow>
             let newStockQuantity = p_stockQuantity product - oi_quantity item;
                 st2 = updateProduct (oi_productId item)
                         (product\<lparr>p_stockQuantity := newStockQuantity\<rparr>) st1;
                 st3 = snd (createStockMovement
                         \<lparr>sm_productId = oi_productId item,
                          sm_productName = oi_productName item,
                          sm_sku = oi_sku item,
                          sm_type = ''out'',
                          sm_quantity = oi_quantity item,
                          sm_reason = ''sale'',
                          sm_notes = Some (orderNotes orderNumber)\<rparr> st2)
             in case getStockStatsByProduct (oi_productId item) st3 of
                  None \<Rightarrow> (row, st3)
                | Some stats \<Rightarrow>
                    (row,
                     updateStockStats (oi_productId item)
                       (noUpdates\<lparr>u_available := Some (max 0 newStockQuantity),
                          u_sold := Some (ss_sold stats + oi_quantity item)\<rparr>) st3))"

fun createOrderItems :: "string \<Rightarrow> string \<Rightarrow> insertOrderItem list \<Rightarrow> db \<Rightarrow> orderItem list \<times> db" where
  "createOrderItems orderId orderNumber [] st = ([], st)"
| "createOrderItems orderId orderNumber (item # items) st =
     (let (row, st1) = createOrderItem orderId orderNumber item st;
          (rows, st2) = createOrderItems orderId orderNumber items st1
      in (row # rows, st2))"

text \<open>
  \<^verbatim>\<open>createOrder\<close>; the fresh order id and the order number (made from the clock) are
  arguments. The result is the order row with its created items, and the new state.
\<close>

definition createOrder ::
  "string \<Rightarrow> string \<Rightarrow> insertOrder \<Rightarrow> insertOrderItem list \<Rightarrow> db \<Rightarrow> (orderRow \<times> orderItem list) \<times> db" where
  "createOrder orderId orderNumber orderData items st =
     (let order = insertOrder.extend orderData (orderRow.fields orderId orderNumber);
          st1 = st\<lparr>orders := orders st @ [order]\<rparr>;
          (createdItems, st2) = createOrderItems orderId orderNumber items st1
      in ((order, createdItems), st2))"

section \<open>Returns\<close>

definition returnNotes :: "string \<Rightarrow> string" where
  "returnNotes returnNumber = ''Return '' @ returnNumber"

text \<open>
  The body of the loop of \<^verbatim>\<open>createReturn\<close> for one item. The movement of type
  \<^verbatim>\<open>in\<close> is created whether or not the product exists.
\<close>

definition createReturnItem :: "string \<Rightarrow> string \<Rightarrow> insertReturnItem \<Rightarrow> db \<Rightarrow> returnItem \<times> db" where
  "createReturnItem returnId returnNumber item st =
     (let row = insertReturnItem.extend item (returnItem.fields returnId);
          st1 = st\<lparr>returnItems := returnItems st @ [row]\<rparr>;
          st3 = (case getProduct (ri_productId item) st1 of
                   None \<Rightarrow> st1
                 | Some product \<Rightarrow>
                     let st2 = updateProduct (ri_productId item)
                                 (product\<lparr>p_stockQuantity := p_stockQuantity product + ri_quantity item\<rparr>)
                                 st1
                     in case getStockStatsByProduct (ri_productId item) st2 of
                          None \<Rightarrow> st2
                        | Some stats \<Rightarrow>
                            updateStockStats (ri_productId item)
                              (noUpdates\<lparr>u_available := Some (p_stockQuantity product + ri_quantity item),
                                 u_returned := Some (ss_returned stats + ri_quantity item)\<rparr>) st2)
      in (row,
          snd (createStockMovement
                 \<lparr>sm_productId = ri_productId item,
                  sm_productName = ri_productName item,
                  sm_sku = ri_sku item,
                  sm_type = ''in'',
                  sm_quantity = ri_quantity item,
                  sm_reason = ''return'',
                  sm_notes = Some (returnNotes returnNumber)\<rparr> st3)))"

fun createReturnItems :: "string \<Rightarrow> string \<Rightarrow> insertReturnItem list \<Rightarrow> db \<Rightarrow> returnItem list \<times> db" where
  "createReturnItems returnId returnNumber [] st = ([], st)"
| "createReturnItems returnId returnNumber (item # items) st =
     (let (row, st1) = createReturnItem returnId returnNumber item st;
          (rows, st2) = createReturnItems returnId returnNumber items st1
      in (row # rows, st2))"

definition createReturn ::
  "string \<Rightarrow> string \<Rightarrow> insertReturn \<Rightarrow> insertReturnItem list \<Rightarrow> db \<Rightarrow> (returnRow \<times> returnItem list) \<times> db" where
  "createReturn returnId returnNumber data items st =
     (let newReturn = insertReturn.extend data (returnRow.fields returnId returnNumber);
          st1 = st\<lparr>returns := returns st @ [newReturn]\<rparr>;
          (createdItems, st2) = createReturnItems returnId returnNumber items st1
      in ((newReturn, createdItems), st2))"

section \<open>Discount codes\<close>

definition getDiscountCode :: "string \<Rightarrow> db \<Rightarrow> discountCode option" where
  "getDiscountCode code st = find (\<lambda>r. dc_code r = code) (discountCodes st)"

text \<open>
  The two error strings of \<^verbatim>\<open>useDiscountCode\<close>, as values; the second carries the two
  amounts its message prints.
\<close>

datatype useError = NotPositive | ExceedsCredit jsnum jsnum

record useResult =
  res_updated :: "discountCode option"
  res_wasDeleted :: bool
  res_wasFound :: bool
  res_error :: "useError option"

text \<open>
  \<^verbatim>\<open>useDiscountCode(code, amountUsed)\<close>; the argument \<open>usedAmount\<close> is
  \<^verbatim>\<open>parseFloat(amountUsed)\<close> and \<open>dc_amount\<close> is \<^verbatim>\<open>parseFloat(discountCode.amount)\<close>.
\<close>

definition useDiscountCode :: "string \<Rightarrow> jsnum \<Rightarrow> db \<Rightarrow> useResult \<times> db" where
  "useDiscountCode code usedAmount st =
     (case getDiscountCode code st of
        None \<Rightarrow>
          (\<lparr>res_updated = None, res_wasDeleted = False, res_wasFound = False, res_error = None\<rparr>, st)
      | Some discountCode \<Rightarrow>
          let currentAmount = dc_amount discountCode
          in if isNaN usedAmount \<or> jle usedAmount (Fin 0)
             then (\<lparr>res_updated = None, res_wasDeleted = False, res_wasFound = True,
                     res_error = Some NotPositive\<rparr>, st)
             else if jgt usedAmount currentAmount
             then (\<lparr>res_updated = None, res_wasDeleted = False, res_wasFound = True,
                     res_error = Some (ExceedsCredit (toFixed2 usedAmount) (toFixed2 currentAmount))\<rparr>,
                   st)
             else
               let remainingAmount = jsub currentAmount usedAmount
               in if jle remainingAmount (Fin (1 / 100))
                  then (\<lparr>res_updated = None, res_wasDeleted = True, res_wasFound = True,
                          res_error = None\<rparr>,
                        st\<lparr>discountCodes :=
                             filter (\<lambda>r. dc_id r \<noteq> dc_id discountCode) (discountCodes st)\<rparr>)
                  else
                    let st1 = st\<lparr>discountCodes :=
                                   map (\<lambda>r. if dc_id r = dc_id discountCode
                                             then r\<lparr>dc_amount := toFixed2 remainingAmount\<rparr> else r)
                                       (discountCodes st)\<rparr>;
                        updated = find (\<lambda>r. dc_id r = dc_id discountCode) (discountCodes st1)
                    in (\<lparr>res_updated = updated, res_wasDeleted = False, res_wasFound = True,
                          res_error = None\<rparr>, st1))"

section \<open>Stock statistics\<close>

text \<open>
  The body of the loop of \<^verbatim>\<open>getStockStats\<close> for one product: a missing statistics row
  is created, an existing one gets the product's quantity as \<^verbatim>\<open>available\<close>.
\<close>

definition refreshStats :: "product \<Rightarrow> db \<Rightarrow> db" where
  "refreshStats product st =
     (case find (\<lambda>r. ss_productId r = p_id product) (stockStats st) of
        None \<Rightarrow>
          st\<lparr>stockStats := stockStats st @
               [\<lparr>ss_productId = p_id product,
                 ss_productName = p_productName product,
                 ss_sku = p_sku product,
                 ss_category = p_category product,
                 ss_available = p_stockQuantity product,
                 ss_sold = 0,
                 ss_returned = 0,
                 ss_purchased = 0\<rparr>]\<rparr>
      | Some existing \<Rightarrow>
          st\<lparr>stockStats :=
               map (\<lambda>r. if ss_productId r = p_id product
                         then r\<lparr>ss_available := p_stockQuantity product\<rparr> else r)
                   (stockStats st)\<rparr>)"

text \<open>
  \<^verbatim>\<open>getStockStats\<close>: the loop over all products, then the statistics table ordered by
  product name (\<^verbatim>\<open>orderBy(stockStats.productName)\<close>, here the lexicographic order of
  strings).
\<close>

definition getStockStats :: "db \<Rightarrow> stockStat list \<times> db" where
  "getStockStats st =
     (let allProducts = products st;
          st1 = fold refreshStats allProducts st;
          stats = sort_key ss_productName (stockStats st1)
      in (stats, st1))"

definition initializeStockStats :: "product \<Rightarrow> db \<Rightarrow> stockStat \<times> db" where
  "initializeStockStats product st =
     (let row = \<lparr>ss_productId = p_id product,
                 ss_productName = p_productName product,
                 ss_sku = p_sku product,
                 ss_category = p_category product,
                 ss_available = p_stockQuantity product,
                 ss_sold = 0,
                 ss_returned = 0,
                 ss_purchased = p_stockQuantity product\<rparr>
      in (row, st\<lparr>stockStats := stockStats st @ [row]\<rparr>))"

section \<open>Creating a product\<close>

text \<open>\<^verbatim>\<open>createProduct\<close> of the storage layer; \<open>newId\<close> is the fresh key.\<close>

definition createProduct :: "string \<Rightarrow> insertProduct \<Rightarrow> db \<Rightarrow> product \<times> db" where
  "createProduct newId insertProduct st =
     (let createdProduct = insertProduct.extend insertProduct (product.fields newId);
          st1 = st\<lparr>products := products st @ [createdProduct]\<rparr>
      in (createdProduct, snd (initializeStockStats createdProduct st1)))"

datatype response = Created product | BadRequest string

text \<open>
  The handler of \<^verbatim>\<open>POST /api/products\<close> in \<^verbatim>\<open>server/routes.ts\<close>, from the point where
  the request body has passed the schema: \<open>data\<close> is \<^verbatim>\<open>parsed.data\<close>. The cost price is
  \<open>None\<close> when the field is absent, null or the empty string (which the schema turns
  into null), so that \<open>Some\<close> is the truthy case of the source's test. \<open>fiscalYear\<close> and
  \<open>fiscalMonth\<close> are read from the clock. The free-text \<^verbatim>\<open>notes\<close> column of the entry
  is left out.
\<close>

definition postProduct :: "string \<Rightarrow> nat \<Rightarrow> nat \<Rightarrow> insertProduct \<Rightarrow> db \<Rightarrow> response \<times> db" where
  "postProduct newId fiscalYear fiscalMonth data st =
     (case getProductBySKU (p_sku data) st of
        Some existing \<Rightarrow> (BadRequest ''Product with this SKU already exists'', st)
      | None \<Rightarrow>
          let (product, st1) = createProduct newId data st
          in case p_costPrice data of
               None \<Rightarrow> (Created product, st1)
             | Some cost \<Rightarrow>
                 if p_stockQuantity data > 0 then
                   let sellingPrice = p_price data;
                       costPrice = cost;
                       quantity = p_stockQuantity data;
                       difference = jsub sellingPrice costPrice;
                       totalDifference = jmul difference (Fin (of_int quantity));
                       fiscalQuarter = (fiscalMonth + 2) div 3;
                       entry = \<lparr>acc_transactionType = ''purchase'',
                                acc_referenceId = p_id product,
                                acc_referenceNumber = p_sku product,
                                acc_revenue = Fin 0,
                                acc_cost = toFixed2 (jmul costPrice (Fin (of_int quantity))),
                                acc_profit = toFixed2 totalDifference,
                                acc_productId = p_id product,
                                acc_productName = p_productName product,
                                acc_category = p_category product,
                                acc_quantity = quantity,
                                acc_fiscalYear = fiscalYear,
                                acc_fiscalMonth = fiscalMonth,
                                acc_fiscalQuarter = fiscalQuarter\<rparr>
                   in if jgt difference (Fin 0)
                      then (Created product, st1\<lparr>accounts := accounts st1 @ [entry]\<rparr>)
                      else if jlt difference (Fin 0)
                      then (Created product, st1\<lparr>accounts := accounts st1 @ [entry]\<rparr>)
                      else (Created product, st1)
                 else (Created product, st1))"

section \<open>The totals of a return\<close>





section \<open>Notions used to state the properties\<close>

text \<open>The quantity that \<^verbatim>\<open>createStockMovement\<close> computes from the stock \<open>s\<close> before clamping.\<close>

definition movedQuantity :: "stockMovement \<Rightarrow> int \<Rightarrow> int" where
  "movedQuantity m s =
     (if sm_type m = ''in'' then s + sm_quantity m
      else if sm_type m = ''out'' then s - sm_quantity m
      else if sm_type m = ''adjustment'' then sm_quantity m
      else s)"

text \<open>Every product row has a quantity of at least zero.\<close>

definition stockNonneg :: "db \<Rightarrow> bool" where
  "stockNonneg st = (\<forall>p \<in> set (products st). 0 \<le> p_stockQuantity p)"

text \<open>
  The three operations that move stock, with their arguments, and a run of a sequence of
  them, each completed before the next starts.
\<close>

datatype operation =
    Sale string string insertOrder "insertOrderItem list"
  | ReturnIntake string string insertReturn "insertReturnItem list"
  | ManualMovement stockMovement

fun applyOperation :: "operation \<Rightarrow> db \<Rightarrow> db" where
  "applyOperation (Sale orderId orderNumber orderData items) st =
     snd (createOrder orderId orderNumber orderData items st)"
| "applyOperation (ReturnIntake returnId returnNumber data items) st =
     snd (createReturn returnId returnNumber data items st)"
| "applyOperation (ManualMovement movement) st = snd (createStockMovement movement st)"

fun applyOperations :: "operation list \<Rightarrow> db \<Rightarrow> db" where
  "applyOperations [] st = st"
| "applyOperations (operation # rest) st = applyOperations rest (applyOperation operation st)"

text \<open>
  A shop with one product, ten in stock, and its statistics row; an order, a return and
  a manual movement for that product, of a given quantity.
\<close>

definition demoProduct :: product where
  "demoProduct =
     \<lparr>p_productName = ''Shirt'', p_sku = ''S1'', p_category = ''tops'', p_price = Fin 50,
      p_costPrice = Some (Fin 30), p_stockQuantity = 10, p_id = ''p1''\<rparr>"

definition demoShop :: db where
  "demoShop =
     \<lparr>products = [demoProduct],
      orders = [], orderItems = [], stockMovements = [],
      stockStats =
        [\<lparr>ss_productId = ''p1'', ss_productName = ''Shirt'', ss_sku = ''S1'',
          ss_category = ''tops'', ss_available = 10, ss_sold = 0, ss_returned = 0,
          ss_purchased = 10\<rparr>],
      returns = [], returnItems = [], discountCodes = [], accounts = []\<rparr>"

definition demoOrder :: insertOrder where
  "demoOrder =
     \<lparr>o_customerName = ''Ann'', o_customerEmail = None, o_status = ''pending'',
      o_totalAmount = Fin 150\<rparr>"

definition demoOrderItem :: "int \<Rightarrow> insertOrderItem" where
  "demoOrderItem q =
     \<lparr>oi_productId = ''p1'', oi_productName = ''Shirt'', oi_sku = ''S1'', oi_quantity = q,
      oi_unitPrice = Fin 50, oi_subtotal = Fin (50 * of_int q)\<rparr>"

definition demoReturn :: insertReturn where
  "demoReturn =
     \<lparr>r_orderId = ''o1'', r_customerName = ''Ann'', r_customerEmail = None,
      r_refundAmount = Some (Fin 150), r_creditAmount = Some (Fin 0),
      r_exchangeValue = Some (Fin 0), r_additionalPayment = Some (Fin 0)\<rparr>"

definition demoReturnItem :: "int \<Rightarrow> insertReturnItem" where
  "demoReturnItem q =
     \<lparr>ri_productId = ''p1'', ri_productName = ''Shirt'', ri_sku = ''S1'', ri_quantity = q,
      ri_unitPrice = Fin 50, ri_subtotal = Fin (50 * of_int q), ri_exchangeProductId = None\<rparr>"

definition demoMovement :: "string \<Rightarrow> int \<Rightarrow> stockMovement" where
  "demoMovement ty q =
     \<lparr>sm_productId = ''p1'', sm_productName = ''Shirt'', sm_sku = ''S1'', sm_type = ty,
      sm_quantity = q, sm_reason = ''correction'', sm_notes = None\<rparr>"

definition demoOperations :: "operation list" where
  "demoOperations =
     [Sale ''o1'' ''ORD-1'' demoOrder [demoOrderItem 30],
      ReturnIntake ''r1'' ''RET-1'' demoReturn [demoReturnItem 2],
      ManualMovement (demoMovement ''out'' 100)]"

text \<open>A store with two credit codes, of 50.00 and of 12.34.\<close>

definition demoCredit :: discountCode where
  "demoCredit =
     \<lparr>dc_id = ''d1'', dc_code = ''CREDIT-1'', dc_customerEmail = ''ann@example.com'',
      dc_amount = Fin 50\<rparr>"

definition otherCredit :: discountCode where
  "otherCredit =
     \<lparr>dc_id = ''d2'', dc_code = ''CREDIT-2'', dc_customerEmail = ''bob@example.com'',
      dc_amount = Fin (1234 / 100)\<rparr>"

definition demoCredits :: db where
  "demoCredits = demoShop\<lparr>discountCodes := [demoCredit, otherCredit]\<rparr>"

text \<open>The statistics row that \<^verbatim>\<open>getStockStats\<close> creates for a product that has none.\<close>

definition createdStats :: "product \<Rightarrow> stockStat" where
  "createdStats product =
     \<lparr>ss_productId = p_id product,
      ss_productName = p_productName product,
      ss_sku = p_sku product,
      ss_category = p_category product,
      ss_available = p_stockQuantity product,
      ss_sold = 0,
      ss_returned = 0,
      ss_purchased = 0\<rparr>"

text \<open>
  A shop with two products; only the first has a statistics row, and its
  \<^verbatim>\<open>available\<close> has drifted from the product's quantity.
\<close>

definition apron :: product where
  "apron =
     \<lparr>p_productName = ''Apron'', p_sku = ''A1'', p_category = ''kitchen'', p_price = Fin 20,
      p_costPrice = None, p_stockQuantity = 5, p_id = ''p2''\<rparr>"

definition driftedShop :: db where
  "driftedShop =
     demoShop\<lparr>products := [demoProduct, apron],
       stockStats :=
         [\<lparr>ss_productId = ''p1'', ss_productName = ''Shirt'', ss_sku = ''S1'',
           ss_category = ''tops'', ss_available = 99, ss_sold = 4, ss_returned = 1,
           ss_purchased = 10\<rparr>]\<rparr>"

text \<open>The body of a request for a new product: SKU, price, cost price and initial quantity.\<close>

definition newProduct :: "string \<Rightarrow> jsnum \<Rightarrow> jsnum option \<Rightarrow> int \<Rightarrow> insertProduct" where
  "newProduct sku price cost q =
     \<lparr>p_productName = ''Scarf'', p_sku = sku, p_category = ''accessories'', p_price = price,
      p_costPrice = cost, p_stockQuantity = q\<rparr>"





section \<open>Products and movements: what the operations do to the product table\<close>

lemma find_id_Some: "find (\<lambda>p. p_id p = pid) xs = Some p \<Longrightarrow> p_id p = pid \<and> p \<in> set xs"
  by (induction xs) (auto split: if_splits)

lemma getProduct_Some: "getProduct pid st = Some p \<Longrightarrow> p_id p = pid \<and> p \<in> set (products st)"
  unfolding getProduct_def by (rule find_id_Some)

lemma find_map_replace:
  "find (\<lambda>p. p_id p = pid) xs = Some p \<Longrightarrow> p_id d = pid \<Longrightarrow>
   find (\<lambda>p. p_id p = pid) (map (\<lambda>r. if p_id r = pid then d else r) xs) = Some d"
  by (induction xs) (auto split: if_splits)

lemma getProduct_updateProduct:
  "getProduct pid st = Some p \<Longrightarrow> p_id d = pid \<Longrightarrow> getProduct pid (updateProduct pid d st) = Some d"
  unfolding getProduct_def updateProduct_def by (simp add: find_map_replace)

lemma products_createStockMovement_None:
  "getProduct (sm_productId m) st = None \<Longrightarrow>
   snd (createStockMovement m st) = st\<lparr>stockMovements := stockMovements st @ [m]\<rparr>"
  by (simp add: createStockMovement_def getProduct_def Let_def)

lemma products_createStockMovement_Some:
  "getProduct (sm_productId m) st = Some p \<Longrightarrow>
   products (snd (createStockMovement m st)) =
     map (\<lambda>r. if p_id r = sm_productId m
               then p\<lparr>p_stockQuantity := max 0 (movedQuantity m (p_stockQuantity p))\<rparr> else r)
         (products st)"
  by (simp add: createStockMovement_def getProduct_def Let_def updateProduct_def movedQuantity_def
        updateStockStats_def split: option.splits)

lemma stockMovements_createStockMovement:
  "stockMovements (snd (createStockMovement m st)) = stockMovements st @ [m]"
  by (simp add: createStockMovement_def getProduct_def Let_def updateProduct_def
        updateStockStats_def split: option.splits)

lemma fst_createStockMovement: "fst (createStockMovement m st) = m"
  by (simp add: createStockMovement_def Let_def split: option.splits)

lemma stockNonneg_createStockMovement:
  "stockNonneg st \<Longrightarrow> stockNonneg (snd (createStockMovement m st))"
proof (cases "getProduct (sm_productId m) st")
  case None
  assume "stockNonneg st"
  with None show ?thesis
    by (simp add: products_createStockMovement_None stockNonneg_def)
next
  case (Some p)
  assume "stockNonneg st"
  then show ?thesis
    by (auto simp: products_createStockMovement_Some [OF Some] stockNonneg_def)
qed

lemma products_updateStockStats [simp]:
  "products (updateStockStats pid u st) = products st"
  by (simp add: updateStockStats_def)

lemma products_createOrderItem_None:
  assumes "getProduct (oi_productId item) st = None"
  shows "products (snd (createOrderItem orderId orderNumber item st)) = products st"
  using assms by (simp add: createOrderItem_def Let_def getProduct_def)

lemma products_createOrderItem_Some:
  assumes found: "getProduct (oi_productId item) st = Some p"
  shows "products (snd (createOrderItem orderId orderNumber item st)) =
           map (\<lambda>r. if p_id r = oi_productId item
                     then p\<lparr>p_stockQuantity :=
                            max 0 (p_stockQuantity p - oi_quantity item - oi_quantity item)\<rparr>
                     else r)
               (products st)"
proof -
  let ?pid = "oi_productId item"
  let ?row = "insertOrderItem.extend item (orderItem.fields orderId)"
  let ?st1 = "st\<lparr>orderItems := orderItems st @ [?row]\<rparr>"
  let ?p1 = "p\<lparr>p_stockQuantity := p_stockQuantity p - oi_quantity item\<rparr>"
  let ?st2 = "updateProduct ?pid ?p1 ?st1"
  let ?m = "\<lparr>sm_productId = ?pid, sm_productName = oi_productName item, sm_sku = oi_sku item,
             sm_type = ''out'', sm_quantity = oi_quantity item, sm_reason = ''sale'',
             sm_notes = Some (orderNotes orderNumber)\<rparr>"
  let ?st3 = "snd (createStockMovement ?m ?st2)"
  have id: "p_id p = ?pid" using getProduct_Some [OF found] by simp
  have f1: "getProduct ?pid ?st1 = Some p" using found by (simp add: getProduct_def)
  have f2: "getProduct ?pid ?st2 = Some ?p1"
    using getProduct_updateProduct [OF f1, of ?p1] id by simp
  have p3: "products ?st3 =
      map (\<lambda>r. if p_id r = ?pid
                then ?p1\<lparr>p_stockQuantity := max 0 (movedQuantity ?m (p_stockQuantity ?p1))\<rparr> else r)
          (products ?st2)"
    using products_createStockMovement_Some [of ?m ?st2 ?p1] f2 by simp
  have p2: "products ?st2 = map (\<lambda>r. if p_id r = ?pid then ?p1 else r) (products st)"
    by (simp add: updateProduct_def)
  have "products (snd (createOrderItem orderId orderNumber item st)) = products ?st3"
    using f1 by (simp add: createOrderItem_def Let_def split: option.splits)
  also have "\<dots> = map (\<lambda>r. if p_id r = ?pid
                     then p\<lparr>p_stockQuantity :=
                            max 0 (p_stockQuantity p - oi_quantity item - oi_quantity item)\<rparr>
                     else r) (products st)"
    unfolding p3 p2 using id by (simp add: movedQuantity_def o_def)
  finally show ?thesis .
qed

lemma stockNonneg_createOrderItem:
  assumes "stockNonneg st"
  shows "stockNonneg (snd (createOrderItem orderId orderNumber item st))"
proof (cases "getProduct (oi_productId item) st")
  case None
  with assms show ?thesis
    by (simp add: products_createOrderItem_None stockNonneg_def)
next
  case (Some p)
  with assms show ?thesis
    by (auto simp: products_createOrderItem_Some [OF Some] stockNonneg_def)
qed

lemma stockNonneg_createOrderItems:
  "stockNonneg st \<Longrightarrow> stockNonneg (snd (createOrderItems orderId orderNumber items st))"
proof (induction items arbitrary: st)
  case Nil
  then show ?case by simp
next
  case (Cons item items)
  have "stockNonneg (snd (createOrderItem orderId orderNumber item st))"
    using Cons.prems by (rule stockNonneg_createOrderItem)
  from Cons.IH [OF this] show ?case
    by (simp add: split_beta Let_def)
qed

lemma stockNonneg_createOrder:
  assumes "stockNonneg st"
  shows "stockNonneg (snd (createOrder orderId orderNumber orderData items st))"
proof -
  let ?st1 = "st\<lparr>orders := orders st @ [insertOrder.extend orderData (orderRow.fields orderId orderNumber)]\<rparr>"
  have "stockNonneg ?st1" using assms by (simp add: stockNonneg_def)
  from stockNonneg_createOrderItems [OF this]
  show ?thesis by (simp add: createOrder_def Let_def split_beta)
qed

lemma products_createReturnItem_None:
  assumes "getProduct (ri_productId item) st = None"
  shows "products (snd (createReturnItem returnId returnNumber item st)) = products st"
  using assms
  by (simp add: createReturnItem_def Let_def getProduct_def products_createStockMovement_None)

lemma products_createReturnItem_Some:
  assumes found: "getProduct (ri_productId item) st = Some p"
  shows "products (snd (createReturnItem returnId returnNumber item st)) =
           map (\<lambda>r. if p_id r = ri_productId item
                     then p\<lparr>p_stockQuantity :=
                            max 0 (p_stockQuantity p + ri_quantity item + ri_quantity item)\<rparr>
                     else r)
               (products st)"
proof -
  let ?pid = "ri_productId item"
  let ?row = "insertReturnItem.extend item (returnItem.fields returnId)"
  let ?st1 = "st\<lparr>returnItems := returnItems st @ [?row]\<rparr>"
  let ?p1 = "p\<lparr>p_stockQuantity := p_stockQuantity p + ri_quantity item\<rparr>"
  let ?st2 = "updateProduct ?pid ?p1 ?st1"
  let ?st3 = "case getStockStatsByProduct ?pid ?st2 of
                None \<Rightarrow> ?st2
              | Some stats \<Rightarrow>
                  updateStockStats ?pid
                    (noUpdates\<lparr>u_available := Some (p_stockQuantity p + ri_quantity item),
                       u_returned := Some (ss_returned stats + ri_quantity item)\<rparr>) ?st2"
  let ?m = "\<lparr>sm_productId = ?pid, sm_productName = ri_productName item, sm_sku = ri_sku item,
             sm_type = ''in'', sm_quantity = ri_quantity item, sm_reason = ''return'',
             sm_notes = Some (returnNotes returnNumber)\<rparr>"
  have id: "p_id p = ?pid" using getProduct_Some [OF found] by simp
  have f1: "getProduct ?pid ?st1 = Some p" using found by (simp add: getProduct_def)
  have f2: "getProduct ?pid ?st2 = Some ?p1"
    using getProduct_updateProduct [OF f1, of ?p1] id by simp
  have p32: "products ?st3 = products ?st2" by (simp split: option.splits)
  then have f3: "getProduct ?pid ?st3 = Some ?p1"
    using f2 by (simp add: getProduct_def)
  have p2: "products ?st2 = map (\<lambda>r. if p_id r = ?pid then ?p1 else r) (products st)"
    by (simp add: updateProduct_def)
  have eq: "snd (createReturnItem returnId returnNumber item st) = snd (createStockMovement ?m ?st3)"
    using f1 by (simp add: createReturnItem_def Let_def)
  have "products (snd (createStockMovement ?m ?st3)) =
      map (\<lambda>r. if p_id r = ?pid
                then ?p1\<lparr>p_stockQuantity := max 0 (movedQuantity ?m (p_stockQuantity ?p1))\<rparr> else r)
          (products ?st3)"
    using products_createStockMovement_Some [of ?m ?st3 ?p1] f3 by simp
  also have "\<dots> = map (\<lambda>r. if p_id r = ?pid
                     then p\<lparr>p_stockQuantity :=
                            max 0 (p_stockQuantity p + ri_quantity item + ri_quantity item)\<rparr>
                     else r) (products st)"
    unfolding p32 p2 using id by (simp add: movedQuantity_def o_def)
  finally show ?thesis unfolding eq .
qed

lemma stockNonneg_createReturnItem:
  assumes "stockNonneg st"
  shows "stockNonneg (snd (createReturnItem returnId returnNumber item st))"
proof (cases "getProduct (ri_productId item) st")
  case None
  with assms show ?thesis
    by (simp add: products_createReturnItem_None stockNonneg_def)
next
  case (Some p)
  with assms show ?thesis
    by (auto simp: products_createReturnItem_Some [OF Some] stockNonneg_def)
qed

lemma stockNonneg_createReturnItems:
  "stockNonneg st \<Longrightarrow> stockNonneg (snd (createReturnItems returnId returnNumber items st))"
proof (induction items arbitrary: st)
  case Nil
  then show ?case by simp
next
  case (Cons item items)
  have "stockNonneg (snd (createReturnItem returnId returnNumber item st))"
    using Cons.prems by (rule stockNonneg_createReturnItem)
  from Cons.IH [OF this] show ?case
    by (simp add: split_beta Let_def)
qed

lemma stockNonneg_createReturn:
  assumes "stockNonneg st"
  shows "stockNonneg (snd (createReturn returnId returnNumber data items st))"
proof -
  let ?st1 = "st\<lparr>returns := returns st @ [insertReturn.extend data (returnRow.fields returnId returnNumber)]\<rparr>"
  have "stockNonneg ?st1" using assms by (simp add: stockNonneg_def)
  from stockNonneg_createReturnItems [OF this]
  show ?thesis by (simp add: createReturn_def Let_def split_beta)
qed

lemma stockNonneg_applyOperation:
  "stockNonneg st \<Longrightarrow> stockNonneg (applyOperation operation st)"
  by (cases operation)
     (simp_all add: stockNonneg_createOrder stockNonneg_createReturn stockNonneg_createStockMovement)

lemma stockNonneg_applyOperations:
  "stockNonneg st \<Longrightarrow> stockNonneg (applyOperations ops st)"
  by (induction ops arbitrary: st) (simp_all add: stockNonneg_applyOperation)

section \<open>Sales, returns and manual movements\<close>

text \<open>
  A single item of an order or of a return on an existing product, in general: the
  quantity is changed twice, once by the operation itself and once more by the movement
  it records through \<^verbatim>\<open>createStockMovement\<close>.
\<close>

lemma createOrder_single_item_stock:
  assumes "getProduct (oi_productId item) st = Some p"
  shows "getProduct (oi_productId item) (snd (createOrder orderId orderNumber orderData [item] st)) =
           Some (p\<lparr>p_stockQuantity := max 0 (p_stockQuantity p - 2 * oi_quantity item)\<rparr>)"
proof -
  let ?st1 = "st\<lparr>orders := orders st @ [insertOrder.extend orderData (orderRow.fields orderId orderNumber)]\<rparr>"
  have f1: "getProduct (oi_productId item) ?st1 = Some p"
    using assms by (simp add: getProduct_def)
  have id: "p_id p = oi_productId item" using getProduct_Some [OF assms] by simp
  have "snd (createOrder orderId orderNumber orderData [item] st) =
        snd (createOrderItem orderId orderNumber item ?st1)"
    by (simp add: createOrder_def Let_def split_beta)
  moreover have "find (\<lambda>r. p_id r = oi_productId item)
                   (products (snd (createOrderItem orderId orderNumber item ?st1))) =
                 Some (p\<lparr>p_stockQuantity := max 0 (p_stockQuantity p - 2 * oi_quantity item)\<rparr>)"
    unfolding products_createOrderItem_Some [OF f1]
    using assms id by (simp add: find_map_replace getProduct_def)
  ultimately show ?thesis by (simp add: getProduct_def)
qed

lemma createReturn_single_item_stock:
  assumes "getProduct (ri_productId item) st = Some p"
  shows "getProduct (ri_productId item) (snd (createReturn returnId returnNumber data [item] st)) =
           Some (p\<lparr>p_stockQuantity := max 0 (p_stockQuantity p + 2 * ri_quantity item)\<rparr>)"
proof -
  let ?st1 = "st\<lparr>returns := returns st @ [insertReturn.extend data (returnRow.fields returnId returnNumber)]\<rparr>"
  have f1: "getProduct (ri_productId item) ?st1 = Some p"
    using assms by (simp add: getProduct_def)
  have id: "p_id p = ri_productId item" using getProduct_Some [OF assms] by simp
  have "snd (createReturn returnId returnNumber data [item] st) =
        snd (createReturnItem returnId returnNumber item ?st1)"
    by (simp add: createReturn_def Let_def split_beta)
  moreover have "find (\<lambda>r. p_id r = ri_productId item)
                   (products (snd (createReturnItem returnId returnNumber item ?st1))) =
                 Some (p\<lparr>p_stockQuantity := max 0 (p_stockQuantity p + 2 * ri_quantity item)\<rparr>)"
    unfolding products_createReturnItem_Some [OF f1]
    using assms id by (simp add: find_map_replace getProduct_def)
  ultimately show ?thesis by (simp add: getProduct_def)
qed

lemmas storage_defs =
  createOrder_def createOrderItem_def createReturn_def createReturnItem_def
  createStockMovement_def getProduct_def updateProduct_def getStockStatsByProduct_def
  updateStockStats_def setStats_def noUpdates_def orderNotes_def returnNotes_def
  insertOrderItem.extend_def orderItem.fields_def insertOrder.extend_def orderRow.fields_def
  insertReturnItem.extend_def returnItem.fields_def insertReturn.extend_def returnRow.fields_def

lemmas demo_defs =
  demoShop_def demoProduct_def demoOrder_def demoOrderItem_def demoReturn_def
  demoReturnItem_def demoMovement_def demoOperations_def

text \<open>
  C1. A sale of quantity q on a product with stock s is to leave the stock at
  max(0, s - q) and to raise the counter \<^verbatim>\<open>sold\<close> by q. On the shop with ten in stock,
  an order of three raises \<^verbatim>\<open>sold\<close> from 0 to 3 and sets \<^verbatim>\<open>available\<close> to 7, but the
  product's quantity ends at 4, not 7: \<^verbatim>\<open>createOrder\<close> writes 10 - 3 and then
  \<^verbatim>\<open>createStockMovement\<close> subtracts 3 again.
\<close>

theorem createOrder_three_of_ten:
  "map p_stockQuantity
     (products (snd (createOrder ''o1'' ''ORD-1'' demoOrder [demoOrderItem 3] demoShop))) = [4]
   \<and> map ss_sold
     (stockStats (snd (createOrder ''o1'' ''ORD-1'' demoOrder [demoOrderItem 3] demoShop))) = [3]
   \<and> map ss_available
     (stockStats (snd (createOrder ''o1'' ''ORD-1'' demoOrder [demoOrderItem 3] demoShop))) = [7]"
  by (simp add: storage_defs demo_defs Let_def)

text \<open>
  C2. A return of quantity q on a product with stock s is to leave the stock at s + q
  and to raise the counter \<^verbatim>\<open>returned\<close> by q. On the shop with ten in stock, a return
  of three raises \<^verbatim>\<open>returned\<close> from 0 to 3, but the product's quantity ends at 16, not
  13: \<^verbatim>\<open>createReturn\<close> writes 10 + 3 and then \<^verbatim>\<open>createStockMovement\<close> adds 3 again.
\<close>

theorem createReturn_three_on_ten:
  "map p_stockQuantity
     (products (snd (createReturn ''r1'' ''RET-1'' demoReturn [demoReturnItem 3] demoShop))) = [16]
   \<and> map ss_returned
     (stockStats (snd (createReturn ''r1'' ''RET-1'' demoReturn [demoReturnItem 3] demoShop))) = [3]
   \<and> map ss_available
     (stockStats (snd (createReturn ''r1'' ''RET-1'' demoReturn [demoReturnItem 3] demoShop))) = [16]"
  by (simp add: storage_defs demo_defs Let_def)

text \<open>
  C3. Starting from product quantities that are all at least zero, after every completed
  operation of any finite sequence of sales, returns and manual movements (that is, after
  every prefix of the sequence) all product quantities are at least zero. The operations
  are total functions: a result below zero is clamped, never rejected.
\<close>

theorem stock_never_negative:
  "stockNonneg st \<Longrightarrow> stockNonneg (applyOperations (take k ops) st)"
  by (rule stockNonneg_applyOperations)

theorem stock_never_negative_witness:
  "stockNonneg demoShop
   \<and> stockNonneg (applyOperations (take 3 demoOperations) demoShop)
   \<and> map p_stockQuantity (products (applyOperations (take 1 demoOperations) demoShop)) = [0]"
proof -
  have h: "stockNonneg demoShop"
    by (simp add: stockNonneg_def demo_defs)
  have "map p_stockQuantity (products (applyOperations (take 1 demoOperations) demoShop)) = [0]"
    by (simp add: storage_defs demo_defs Let_def)
  with h stock_never_negative [OF h, of 3 demoOperations] show ?thesis by simp
qed

text \<open>
  C4. A movement of type \<^verbatim>\<open>adjustment\<close> with quantity v on an existing product sets the
  product's quantity to max(0, v), whatever it was before, and the movement row that is
  inserted and returned is the supplied one, with its quantity v.
\<close>

theorem adjustment_sets_stock:
  assumes "sm_type m = ''adjustment''"
    and "getProduct (sm_productId m) st = Some p"
  shows "getProduct (sm_productId m) (snd (createStockMovement m st)) =
           Some (p\<lparr>p_stockQuantity := max 0 (sm_quantity m)\<rparr>)
         \<and> stockMovements (snd (createStockMovement m st)) = stockMovements st @ [m]
         \<and> fst (createStockMovement m st) = m"
proof -
  have id: "p_id p = sm_productId m" using getProduct_Some [OF assms(2)] by simp
  have "find (\<lambda>r. p_id r = sm_productId m) (products (snd (createStockMovement m st))) =
        Some (p\<lparr>p_stockQuantity := max 0 (sm_quantity m)\<rparr>)"
    unfolding products_createStockMovement_Some [OF assms(2)]
    using assms(2) id
    by (simp add: find_map_replace getProduct_def movedQuantity_def assms(1))
  then show ?thesis
    by (simp add: getProduct_def stockMovements_createStockMovement fst_createStockMovement)
qed

theorem adjustment_sets_stock_witness:
  "sm_type (demoMovement ''adjustment'' 25) = ''adjustment''
   \<and> getProduct ''p1'' demoShop = Some demoProduct
   \<and> getProduct ''p1'' (snd (createStockMovement (demoMovement ''adjustment'' 25) demoShop)) =
       Some (demoProduct\<lparr>p_stockQuantity := 25\<rparr>)
   \<and> map sm_quantity
       (stockMovements (snd (createStockMovement (demoMovement ''adjustment'' 25) demoShop))) = [25]"
proof -
  have t: "sm_type (demoMovement ''adjustment'' 25) = ''adjustment''"
    by (simp add: demoMovement_def)
  have i: "sm_productId (demoMovement ''adjustment'' 25) = ''p1''"
    by (simp add: demoMovement_def)
  have g: "getProduct (sm_productId (demoMovement ''adjustment'' 25)) demoShop = Some demoProduct"
    by (simp add: getProduct_def demo_defs)
  have q: "sm_quantity (demoMovement ''adjustment'' 25) = 25"
    by (simp add: demoMovement_def)
  have s: "stockMovements demoShop = []"
    by (simp add: demoShop_def)
  from adjustment_sets_stock [OF t g] t g show ?thesis
    by (simp add: i q s)
qed

section \<open>Rounding to two decimals\<close>

lemma floor_half: "\<lfloor>of_int n + (1::rat) / 2\<rfloor> = n"
  by linarith

text \<open>A whole number of cents is its own rounding.\<close>

lemma round2_cents: "round2 (of_int k / 100) = of_int k / 100"
proof -
  have "\<bar>(of_int k :: rat) / 100\<bar> * 100 + 1 / 2 = of_int \<bar>k\<bar> + 1 / 2"
    by simp
  then have "\<lfloor>\<bar>(of_int k :: rat) / 100\<bar> * 100 + 1 / 2\<rfloor> = \<bar>k\<bar>"
    using floor_half [of "\<bar>k\<bar>"] by simp
  then show ?thesis
    by (simp add: round2_def abs_if)
qed

lemma round2_int: "round2 (of_int k) = of_int k"
  using round2_cents [of "100 * k"] by simp

section \<open>Discount codes\<close>







lemmas credit_defs = demoCredits_def demoCredit_def otherCredit_def demoShop_def

lemma demoCredit_found: "getDiscountCode ''CREDIT-1'' demoCredits = Some demoCredit"
  by (simp add: getDiscountCode_def credit_defs)


text \<open>
  C6. Whenever \<^verbatim>\<open>useDiscountCode\<close> signals an error, the store is unchanged: when the code
  is not found; when the requested amount is not a number or is at most zero (the code
  is found and stays); when the requested amount exceeds the balance (code and balance
  stay). In general the store is unchanged whenever the result says not found or carries
  an error.
\<close>

theorem useDiscountCode_errors_keep_store:
  "(getDiscountCode code st = None \<longrightarrow>
      useDiscountCode code amountUsed st =
        (\<lparr>res_updated = None, res_wasDeleted = False, res_wasFound = False, res_error = None\<rparr>, st))
   \<and> (getDiscountCode code st = Some d \<and> (isNaN amountUsed \<or> jle amountUsed (Fin 0)) \<longrightarrow>
      useDiscountCode code amountUsed st =
        (\<lparr>res_updated = None, res_wasDeleted = False, res_wasFound = True,
          res_error = Some NotPositive\<rparr>, st))
   \<and> (getDiscountCode code st = Some d \<and> \<not> isNaN amountUsed \<and> \<not> jle amountUsed (Fin 0)
        \<and> jgt amountUsed (dc_amount d) \<longrightarrow>
      useDiscountCode code amountUsed st =
        (\<lparr>res_updated = None, res_wasDeleted = False, res_wasFound = True,
          res_error = Some (ExceedsCredit (toFixed2 amountUsed) (toFixed2 (dc_amount d)))\<rparr>, st))
   \<and> (\<not> res_wasFound (fst (useDiscountCode code amountUsed st))
        \<or> res_error (fst (useDiscountCode code amountUsed st)) \<noteq> None \<longrightarrow>
      snd (useDiscountCode code amountUsed st) = st)"
  by (simp add: useDiscountCode_def Let_def split: option.splits)

theorem useDiscountCode_errors_keep_store_witness:
  "getDiscountCode ''NO-SUCH'' demoCredits = None
   \<and> useDiscountCode ''NO-SUCH'' (Fin 5) demoCredits =
       (\<lparr>res_updated = None, res_wasDeleted = False, res_wasFound = False, res_error = None\<rparr>,
        demoCredits)
   \<and> useDiscountCode ''CREDIT-1'' NaN demoCredits =
       (\<lparr>res_updated = None, res_wasDeleted = False, res_wasFound = True,
         res_error = Some NotPositive\<rparr>, demoCredits)
   \<and> useDiscountCode ''CREDIT-1'' (Fin (- 5)) demoCredits =
       (\<lparr>res_updated = None, res_wasDeleted = False, res_wasFound = True,
         res_error = Some NotPositive\<rparr>, demoCredits)
   \<and> jgt (Fin 80) (dc_amount demoCredit)
   \<and> useDiscountCode ''CREDIT-1'' (Fin 80) demoCredits =
       (\<lparr>res_updated = None, res_wasDeleted = False, res_wasFound = True,
         res_error = Some (ExceedsCredit (Fin 80) (Fin 50))\<rparr>, demoCredits)
   \<and> snd (useDiscountCode ''CREDIT-1'' (Fin 80) demoCredits) = demoCredits"
proof -
  have none: "getDiscountCode ''NO-SUCH'' demoCredits = None"
    by (simp add: getDiscountCode_def credit_defs)
  have bal: "dc_amount demoCredit = Fin 50"
    by (simp add: demoCredit_def)
  have r80: "round2 80 = 80" and r50: "round2 50 = 50"
    using round2_int [of 80] round2_int [of 50] by simp_all
  from useDiscountCode_errors_keep_store
         [where code = "''NO-SUCH''" and st = demoCredits and amountUsed = "Fin 5"]
       useDiscountCode_errors_keep_store
         [where code = "''CREDIT-1''" and st = demoCredits and d = demoCredit and amountUsed = NaN]
       useDiscountCode_errors_keep_store
         [where code = "''CREDIT-1''" and st = demoCredits and d = demoCredit
            and amountUsed = "Fin (- 5)"]
       useDiscountCode_errors_keep_store
         [where code = "''CREDIT-1''" and st = demoCredits and d = demoCredit
            and amountUsed = "Fin 80"]
       none demoCredit_found
  show ?thesis
    by (simp add: bal jle_def jgt_def r80 r50)
qed

section \<open>Stock statistics\<close>

lemma find_by_filter:
  "find P xs = (case filter P xs of [] \<Rightarrow> None | x # ys \<Rightarrow> Some x)"
  by (induction xs) auto

lemma find_filter_cong: "filter P xs = filter P ys \<Longrightarrow> find P xs = find P ys"
  by (simp add: find_by_filter)

lemma find_None_filter: "find P xs = None \<longleftrightarrow> filter P xs = []"
  by (simp add: find_by_filter split: list.splits)

lemma stockStats_refreshStats:
  "stockStats (refreshStats p st) =
     (if find (\<lambda>r. ss_productId r = p_id p) (stockStats st) = None
      then stockStats st @ [createdStats p]
      else map (\<lambda>r. if ss_productId r = p_id p then r\<lparr>ss_available := p_stockQuantity p\<rparr> else r)
             (stockStats st))"
  by (simp add: refreshStats_def createdStats_def split: option.splits)

lemma products_refreshStats: "products (refreshStats p st) = products st"
  by (simp add: refreshStats_def split: option.splits)

lemma products_fold_refreshStats: "products (fold refreshStats ps st) = products st"
  by (induction ps arbitrary: st) (simp_all add: products_refreshStats)

text \<open>A product with another id leaves the rows of this id as they are.\<close>

lemma filter_refreshStats_other:
  assumes "p_id x \<noteq> i"
  shows "filter (\<lambda>r. ss_productId r = i) (stockStats (refreshStats x st)) =
         filter (\<lambda>r. ss_productId r = i) (stockStats st)"
proof -
  have other: "filter (\<lambda>r. ss_productId r = i)
          (map (\<lambda>r. if ss_productId r = p_id x then r\<lparr>ss_available := p_stockQuantity x\<rparr> else r) xs) =
        filter (\<lambda>r. ss_productId r = i) xs" for xs
    using assms by (induction xs) auto
  show ?thesis
    using assms by (simp add: stockStats_refreshStats createdStats_def other)
qed

lemma filter_fold_refreshStats_other:
  "i \<notin> p_id ` set ps \<Longrightarrow>
   filter (\<lambda>r. ss_productId r = i) (stockStats (fold refreshStats ps st)) =
   filter (\<lambda>r. ss_productId r = i) (stockStats st)"
proof (induction ps arbitrary: st)
  case Nil
  then show ?case by simp
next
  case (Cons x ps)
  then have "p_id x \<noteq> i" and "i \<notin> p_id ` set ps" by auto
  then show ?case
    using Cons.IH [of "refreshStats x st"] by (simp add: filter_refreshStats_other)
qed

text \<open>After the step for a product, every row of its id has its quantity.\<close>

lemma available_refreshStats:
  assumes "r \<in> set (stockStats (refreshStats p st))" and "ss_productId r = p_id p"
  shows "ss_available r = p_stockQuantity p"
proof (cases "find (\<lambda>r. ss_productId r = p_id p) (stockStats st) = None")
  case True
  then have "filter (\<lambda>r. ss_productId r = p_id p) (stockStats st) = []"
    by (simp add: find_None_filter)
  then have "r \<notin> set (stockStats st)"
    using assms(2) by (auto simp: filter_empty_conv)
  with assms(1) True have "r = createdStats p"
    by (simp add: stockStats_refreshStats)
  then show ?thesis by (simp add: createdStats_def)
next
  case False
  with assms show ?thesis
    by (auto simp: stockStats_refreshStats split: if_splits)
qed

lemma row_kept_refreshStats:
  assumes "\<exists>r \<in> set (stockStats st). ss_productId r = i"
  shows "\<exists>r \<in> set (stockStats (refreshStats x st)). ss_productId r = i"
proof -
  let ?f = "\<lambda>r. if ss_productId r = p_id x then r\<lparr>ss_available := p_stockQuantity x\<rparr> else r"
  from assms obtain r where r: "r \<in> set (stockStats st)" "ss_productId r = i" by blast
  have "?f r \<in> set (map ?f (stockStats st))" using r(1) by (simp only: set_map) (rule imageI)
  moreover have "ss_productId (?f r) = i" using r(2) by simp
  ultimately have "\<exists>r' \<in> set (map ?f (stockStats st)). ss_productId r' = i" by blast
  moreover have "\<exists>r' \<in> set (stockStats st @ [createdStats x]). ss_productId r' = i"
    using r by auto
  ultimately show ?thesis
    by (simp only: stockStats_refreshStats split: if_splits) simp
qed

lemma row_kept_fold_refreshStats:
  "\<exists>r \<in> set (stockStats st). ss_productId r = i \<Longrightarrow>
   \<exists>r \<in> set (stockStats (fold refreshStats ps st)). ss_productId r = i"
proof (induction ps arbitrary: st)
  case Nil
  then show ?case by simp
next
  case (Cons x ps)
  from Cons.IH [OF row_kept_refreshStats [OF Cons.prems]] show ?case by simp
qed

lemma row_made_refreshStats:
  "\<exists>r \<in> set (stockStats (refreshStats p st)). ss_productId r = p_id p"
proof (cases "find (\<lambda>r. ss_productId r = p_id p) (stockStats st)")
  case None
  then show ?thesis
    by (simp add: stockStats_refreshStats createdStats_def)
next
  case (Some r)
  then have "r \<in> set (stockStats st) \<and> ss_productId r = p_id p"
    by (auto simp: find_Some_iff)
  then show ?thesis
    by (intro row_kept_refreshStats) auto
qed

lemma row_exists_fold_refreshStats:
  "p \<in> set ps \<Longrightarrow> \<exists>r \<in> set (stockStats (fold refreshStats ps st)). ss_productId r = p_id p"
proof (induction ps arbitrary: st)
  case Nil
  then show ?case by simp
next
  case (Cons x ps)
  show ?case
  proof (cases "p = x")
    case True
    then show ?thesis
      using row_kept_fold_refreshStats [OF row_made_refreshStats [of p st], of ps] by simp
  next
    case False
    with Cons.prems have "p \<in> set ps" by simp
    from Cons.IH [OF this] show ?thesis by simp
  qed
qed

lemma available_fold_refreshStats:
  assumes "distinct (map p_id ps)" and "p \<in> set ps"
    and "r \<in> set (stockStats (fold refreshStats ps st))" and "ss_productId r = p_id p"
  shows "ss_available r = p_stockQuantity p"
  using assms
proof (induction ps arbitrary: st)
  case Nil
  then show ?case by simp
next
  case (Cons x ps)
  show ?case
  proof (cases "p = x")
    case True
    have notin: "p_id p \<notin> p_id ` set ps"
      using Cons.prems(1) True by simp
    have "r \<in> set (filter (\<lambda>r. ss_productId r = p_id p)
                   (stockStats (fold refreshStats ps (refreshStats x st))))"
      using Cons.prems(3,4) by simp
    then have "r \<in> set (stockStats (refreshStats x st))"
      unfolding filter_fold_refreshStats_other [OF notin] by simp
    then show ?thesis
      using available_refreshStats [of r x st] Cons.prems(4) True by simp
  next
    case False
    with Cons.prems(2) have "p \<in> set ps" by simp
    moreover have "distinct (map p_id ps)" using Cons.prems(1) by simp
    ultimately show ?thesis
      using Cons.IH [of "refreshStats x st"] Cons.prems(3,4) by simp
  qed
qed

lemma created_fold_refreshStats:
  assumes "distinct (map p_id ps)" and "p \<in> set ps"
    and "find (\<lambda>r. ss_productId r = p_id p) (stockStats st) = None"
  shows "find (\<lambda>r. ss_productId r = p_id p) (stockStats (fold refreshStats ps st)) =
           Some (createdStats p)"
  using assms
proof (induction ps arbitrary: st)
  case Nil
  then show ?case by simp
next
  case (Cons x ps)
  show ?case
  proof (cases "p = x")
    case True
    have notin: "p_id p \<notin> p_id ` set ps"
      using Cons.prems(1) True by simp
    have "filter (\<lambda>r. ss_productId r = p_id p) (stockStats st) = []"
      using Cons.prems(3) by (simp add: find_None_filter)
    then have "filter (\<lambda>r. ss_productId r = p_id p) (stockStats (refreshStats x st)) =
               [createdStats p]"
      using Cons.prems(3) True by (simp add: stockStats_refreshStats createdStats_def)
    then have "filter (\<lambda>r. ss_productId r = p_id p)
                 (stockStats (fold refreshStats ps (refreshStats x st))) = [createdStats p]"
      by (simp add: filter_fold_refreshStats_other [OF notin])
    then show ?thesis
      by (simp add: find_by_filter)
  next
    case False
    with Cons.prems(2) have mem: "p \<in> set ps" by simp
    have dist: "distinct (map p_id ps)" using Cons.prems(1) by simp
    have "p_id x \<noteq> p_id p"
      using Cons.prems(1) mem by auto
    then have "find (\<lambda>r. ss_productId r = p_id p) (stockStats (refreshStats x st)) = None"
      using Cons.prems(3) by (simp add: find_None_filter filter_refreshStats_other)
    from Cons.IH [OF dist mem this] show ?thesis by simp
  qed
qed

text \<open>
  C7. After \<^verbatim>\<open>getStockStats\<close>, the product ids being distinct (the primary key): every
  product has a statistics row; a product that had none has the created row, with
  \<^verbatim>\<open>sold\<close>, \<^verbatim>\<open>returned\<close> and \<^verbatim>\<open>purchased\<close> zero and \<^verbatim>\<open>available\<close> the product's
  quantity; every returned row of a product has that product's quantity as
  \<^verbatim>\<open>available\<close>; the returned list is the statistics table ordered by product name;
  and the product table is unchanged.
\<close>

theorem getStockStats_refreshes:
  assumes "distinct (map p_id (products st))"
  shows "(\<forall>p \<in> set (products st).
            \<exists>r \<in> set (stockStats (snd (getStockStats st))). ss_productId r = p_id p)
       \<and> (\<forall>p \<in> set (products st).
            getStockStatsByProduct (p_id p) st = None \<longrightarrow>
            getStockStatsByProduct (p_id p) (snd (getStockStats st)) = Some (createdStats p))
       \<and> (\<forall>r \<in> set (fst (getStockStats st)). \<forall>p \<in> set (products st).
            ss_productId r = p_id p \<longrightarrow> ss_available r = p_stockQuantity p)
       \<and> sorted (map ss_productName (fst (getStockStats st)))
       \<and> set (fst (getStockStats st)) = set (stockStats (snd (getStockStats st)))
       \<and> length (fst (getStockStats st)) = length (stockStats (snd (getStockStats st)))
       \<and> products (snd (getStockStats st)) = products st"
proof -
  let ?st' = "fold refreshStats (products st) st"
  have s: "snd (getStockStats st) = ?st'"
    and f: "fst (getStockStats st) = sort_key ss_productName (stockStats ?st')"
    by (simp_all add: getStockStats_def Let_def)
  have a: "\<forall>p \<in> set (products st). \<exists>r \<in> set (stockStats ?st'). ss_productId r = p_id p"
    using row_exists_fold_refreshStats by blast
  have b: "\<forall>p \<in> set (products st).
            getStockStatsByProduct (p_id p) st = None \<longrightarrow>
            getStockStatsByProduct (p_id p) ?st' = Some (createdStats p)"
    using created_fold_refreshStats [OF assms] by (simp add: getStockStatsByProduct_def)
  have c: "\<forall>r \<in> set (sort_key ss_productName (stockStats ?st')). \<forall>p \<in> set (products st).
            ss_productId r = p_id p \<longrightarrow> ss_available r = p_stockQuantity p"
    using available_fold_refreshStats [OF assms] by simp
  have d: "sorted (map ss_productName (sort_key ss_productName (stockStats ?st')))"
    by (rule sorted_sort_key)
  show ?thesis
    unfolding s f using a b c d by (simp add: products_fold_refreshStats)
qed

lemma Apron_before_Shirt: "''Apron'' < ''Shirt''"
  by code_simp

theorem getStockStats_refreshes_witness:
  "distinct (map p_id (products driftedShop))
   \<and> map ss_productName (fst (getStockStats driftedShop)) = [''Apron'', ''Shirt'']
   \<and> map ss_available (fst (getStockStats driftedShop)) = [5, 10]
   \<and> sorted (map ss_productName (fst (getStockStats driftedShop)))
   \<and> getStockStatsByProduct ''p2'' driftedShop = None
   \<and> getStockStatsByProduct ''p2'' (snd (getStockStats driftedShop)) = Some (createdStats apron)"
proof -
  have h: "distinct (map p_id (products driftedShop))"
    by (simp add: driftedShop_def demoShop_def demoProduct_def apron_def)
  have n: "map ss_productName (fst (getStockStats driftedShop)) = [''Apron'', ''Shirt'']"
    using Apron_before_Shirt
    by (simp add: getStockStats_def refreshStats_def driftedShop_def demoShop_def
          demoProduct_def apron_def Let_def)
  have v: "map ss_available (fst (getStockStats driftedShop)) = [5, 10]"
    using Apron_before_Shirt
    by (simp add: getStockStats_def refreshStats_def driftedShop_def demoShop_def
          demoProduct_def apron_def Let_def)
  have m: "apron \<in> set (products driftedShop)" and i: "p_id apron = ''p2''"
    by (simp_all add: driftedShop_def apron_def)
  have g: "getStockStatsByProduct ''p2'' driftedShop = None"
    by (simp add: getStockStatsByProduct_def driftedShop_def demoShop_def)
  from getStockStats_refreshes [OF h] m i g h n v show ?thesis
    by (metis)
qed

section \<open>Creating a product\<close>

lemma postProduct_sku_taken:
  "getProductBySKU (p_sku data) st = Some existing \<Longrightarrow>
   postProduct newId y m data st = (BadRequest ''Product with this SKU already exists'', st)"
  by (simp add: postProduct_def)

lemma accounts_createProduct: "accounts (snd (createProduct newId data st)) = accounts st"
  by (simp add: createProduct_def initializeStockStats_def Let_def)

lemma fst_createProduct:
  "fst (createProduct newId data st) = insertProduct.extend data (product.fields newId)"
  by (simp add: createProduct_def Let_def)

lemma products_createProduct:
  "products (snd (createProduct newId data st)) =
     products st @ [insertProduct.extend data (product.fields newId)]"
  by (simp add: createProduct_def initializeStockStats_def Let_def)









text \<open>
  C10. With a cost price present, no account entry is written when price minus cost is
  exactly zero or when the initial quantity is zero; the product itself is created when
  its SKU is free.
\<close>

theorem postProduct_no_entry:
  assumes "p_costPrice data = Some c"
    and "jsub (p_price data) c = Fin 0 \<or> p_stockQuantity data = 0"
  shows "accounts (snd (postProduct newId y m data st)) = accounts st
       \<and> (getProductBySKU (p_sku data) st = None \<longrightarrow>
            fst (postProduct newId y m data st) =
              Created (insertProduct.extend data (product.fields newId))
            \<and> products (snd (postProduct newId y m data st)) =
                products st @ [insertProduct.extend data (product.fields newId)])"
  using assms
  by (auto simp: postProduct_def split_beta Let_def jgt_def accounts_createProduct
        fst_createProduct products_createProduct split: option.splits)

theorem postProduct_no_entry_witness:
  "jsub (p_price (newProduct ''SC1'' (Fin 30) (Some (Fin 30)) 10)) (Fin 30) = Fin 0
   \<and> accounts (snd (postProduct ''p9'' 2026 11
        (newProduct ''SC1'' (Fin 30) (Some (Fin 30)) 10) demoShop)) = accounts demoShop
   \<and> p_stockQuantity (newProduct ''SC2'' (Fin 50) (Some (Fin 30)) 0) = 0
   \<and> accounts (snd (postProduct ''p9'' 2026 11
        (newProduct ''SC2'' (Fin 50) (Some (Fin 30)) 0) demoShop)) = accounts demoShop
   \<and> map p_id (products (snd (postProduct ''p9'' 2026 11
        (newProduct ''SC2'' (Fin 50) (Some (Fin 30)) 0) demoShop))) = [''p1'', ''p9'']"
proof -
  let ?even = "newProduct ''SC1'' (Fin 30) (Some (Fin 30)) 10"
  let ?none = "newProduct ''SC2'' (Fin 50) (Some (Fin 30)) 0"
  have c: "p_costPrice ?even = Some (Fin 30)" "p_costPrice ?none = Some (Fin 30)"
    by (simp_all add: newProduct_def)
  have d: "jsub (p_price ?even) (Fin 30) = Fin 0"
    by (simp add: newProduct_def jsub_def)
  have z: "p_stockQuantity ?none = 0"
    by (simp add: newProduct_def)
  have sku: "getProductBySKU (p_sku ?none) demoShop = None"
    by (simp add: getProductBySKU_def newProduct_def demoShop_def demoProduct_def)
  have ids: "map p_id (products demoShop) = [''p1'']"
    by (simp add: demoShop_def demoProduct_def)
  from postProduct_no_entry [OF c(1) disjI1 [OF d], of "''p9''" 2026 11 demoShop]
       postProduct_no_entry [OF c(2) disjI2 [OF z], of "''p9''" 2026 11 demoShop]
       d z sku ids
  show ?thesis
    by (simp add: insertProduct.extend_def product.fields_def)
qed

section \<open>The totals of a return\<close>

















end
